theory Spec2Isabelle
  imports Complex_Main "HOL-Library.AList"
begin

section \<open>Round engine: data model (game-manager.ts)\<close>

text \<open>
  JavaScript numbers that hold board cells, drawn numbers, seeds, stakes and scores are
  modelled as integers; the values \<open>Math.random()\<close> and \<open>Math.sin\<close> produce are
  modelled as reals. A JavaScript \<open>Map\<close> is an association list in insertion order with
  unique keys (\<open>Map.set\<close> is \<open>AList.update\<close>, \<open>Map.delete\<close> is \<open>AList.delete\<close>,
  \<open>Map.size\<close> is the length); a \<open>Set\<close> whose order is read back is a duplicate-free
  list, one that is only tested for membership is a HOL set. A function whose loop may
  run forever returns an \<open>option\<close>: \<open>None\<close> means that the call never returns.
\<close>

record GameSettings =
  stake :: int
  autoCall :: bool
  callInterval :: int
  winPatterns :: "string list"

record GamePlayer =
  gp_id :: string
  gp_name :: string
  board :: "int list"
  markedNumbers :: "int set"
  gp_isReady :: bool
  hasWon :: bool
  winTime :: "int option"
  gp_score :: int

record Game =
  g_id :: string
  roomCode :: string
  gtype :: string
  players :: "(string \<times> GamePlayer) list"
  calledNumbers :: "int list"
  currentNumber :: "int option"
  gameStarted :: bool
  gameEnded :: bool
  winner :: "string option"
  winPattern :: "string option"
  boardSeed :: int
  settings :: GameSettings

record GameManager =
  games :: "(string \<times> Game) list"
  onlinePlayers :: "string set"

section \<open>Board generation\<close>

text \<open>
  \<open>seededRandom(seed)\<close> computes \<open>x = Math.sin(seed++) * 10000\<close> and returns
  \<open>x - Math.floor(x)\<close>. The post-increment acts on the parameter's local copy only, so
  the result is a function of the seed alone.
\<close>

definition seededRandom :: "int \<Rightarrow> real" where
  "seededRandom seed = (let x = sin (of_int seed) * 10000 in x - of_int \<lfloor>x\<rfloor>)"

text \<open>
  The closure \<open>random(min, max)\<close> of \<open>generateBoard\<close>: it captures the parameter
  \<open>seed\<close>, which nothing reassigns.
\<close>

definition random_c :: "int \<Rightarrow> int \<Rightarrow> int \<Rightarrow> int" where
  "random_c seed mn mx = \<lfloor>seededRandom seed * of_int (mx - mn + 1)\<rfloor> + mn"

text \<open>\<open>Set.add\<close> on a set kept in insertion order.\<close>

definition set_add :: "int list \<Rightarrow> int \<Rightarrow> int list" where
  "set_add numbers v = (if v \<in> set numbers then numbers else numbers @ [v])"

text \<open>
  The rejection loop shared by the three generators:
  \<open>while (numbers.size < count) { numbers.add(random(min, max)); }\<close>
\<close>

partial_function (option) while_add ::
  "(int \<Rightarrow> int \<Rightarrow> int) \<Rightarrow> int \<Rightarrow> int \<Rightarrow> int \<Rightarrow> int list \<Rightarrow> int list option" where
  "while_add rnd mn mx count numbers =
     (if int (length numbers) < count
      then while_add rnd mn mx count (set_add numbers (rnd mn mx))
      else Some numbers)"

text \<open>The body of \<open>for (let col = 0; col < 5; col++)\<close> in \<open>generate75BallBoard\<close>, over the
  remaining column ranges.\<close>

fun columns75 ::
  "(int \<Rightarrow> int \<Rightarrow> int) \<Rightarrow> (int \<times> int) list \<Rightarrow> int list \<Rightarrow> int list option" where
  "columns75 rnd [] brd = Some brd"
| "columns75 rnd ((mn, mx) # cols) brd =
     (case while_add rnd mn mx 5 [] of
        None \<Rightarrow> None
      | Some numbers \<Rightarrow> columns75 rnd cols (brd @ sort numbers))"

definition generate75BallBoard :: "(int \<Rightarrow> int \<Rightarrow> int) \<Rightarrow> int list option" where
  "generate75BallBoard rnd =
     columns75 rnd [(1, 15), (16, 30), (31, 45), (46, 60), (61, 75)] []"

text \<open>The loop body of \<open>generate90BallBoard\<close>: a count \<open>random(1, 3)\<close> per column, the
  drawn numbers appended unsorted.\<close>

fun columns90 ::
  "(int \<Rightarrow> int \<Rightarrow> int) \<Rightarrow> (int \<times> int) list \<Rightarrow> int list \<Rightarrow> int list option" where
  "columns90 rnd [] brd = Some brd"
| "columns90 rnd ((mn, mx) # cols) brd =
     (case while_add rnd mn mx (rnd 1 3) [] of
        None \<Rightarrow> None
      | Some numbers \<Rightarrow> columns90 rnd cols (brd @ numbers))"

definition generate90BallBoard :: "(int \<Rightarrow> int \<Rightarrow> int) \<Rightarrow> int list option" where
  "generate90BallBoard rnd =
     columns90 rnd [(1, 10), (11, 20), (21, 30), (31, 40), (41, 50),
                    (51, 60), (61, 70), (71, 80), (81, 90)] []"

definition generate30BallBoard :: "(int \<Rightarrow> int \<Rightarrow> int) \<Rightarrow> int list option" where
  "generate30BallBoard rnd =
     (case while_add rnd 1 30 9 [] of
        None \<Rightarrow> None
      | Some numbers \<Rightarrow> Some (sort numbers))"

definition generatePatternBoard :: "(int \<Rightarrow> int \<Rightarrow> int) \<Rightarrow> int list option" where
  "generatePatternBoard rnd = generate75BallBoard rnd"

definition generateBoard :: "string \<Rightarrow> int \<Rightarrow> int list option" where
  "generateBoard gameType seed =
     (if gameType = ''75ball'' then generate75BallBoard (random_c seed)
      else if gameType = ''90ball'' then generate90BallBoard (random_c seed)
      else if gameType = ''30ball'' then generate30BallBoard (random_c seed)
      else if gameType = ''pattern'' then generatePatternBoard (random_c seed)
      else generate75BallBoard (random_c seed))"

section \<open>Win-pattern evaluator\<close>

text \<open>\<open>boardToGrid\<close>: a 5 by 5 grid, row-major, cell \<open>i\<close> holding \<open>board[i] || 0\<close> (0 where
  the board is shorter than 25 cells or holds a falsy value).\<close>

definition cell :: "int list \<Rightarrow> nat \<Rightarrow> int" where
  "cell brd i = (if i < length brd \<and> brd ! i \<noteq> 0 then brd ! i else 0)"

definition boardToGrid :: "int list \<Rightarrow> int list list" where
  "boardToGrid brd = map (\<lambda>row. map (\<lambda>col. cell brd (5 * row + col)) [0..<5]) [0..<5]"

definition checkPattern :: "int list list \<Rightarrow> int set \<Rightarrow> string \<Rightarrow> bool" where
  "checkPattern grid marked pattern =
     (if pattern = ''row'' then
        list_ex (\<lambda>row. list_all (\<lambda>col. (row = 2 \<and> col = 2) \<or> grid ! row ! col \<in> marked) [0..<5])
          [0..<5]
      else if pattern = ''column'' then
        list_ex (\<lambda>col. list_all (\<lambda>row. (row = 2 \<and> col = 2) \<or> grid ! row ! col \<in> marked) [0..<5])
          [0..<5]
      else if pattern = ''diagonal'' then
        (if list_all (\<lambda>i. i = 2 \<or> grid ! i ! i \<in> marked) [0..<5] then True
         else list_all (\<lambda>i. i = 2 \<or> grid ! i ! (4 - i) \<in> marked) [0..<5])
      else if pattern = ''four-corners'' then
        grid ! 0 ! 0 \<in> marked \<and> grid ! 0 ! 4 \<in> marked \<and>
        grid ! 4 ! 0 \<in> marked \<and> grid ! 4 ! 4 \<in> marked
      else if pattern = ''full-house'' then
        list_all (\<lambda>row. list_all (\<lambda>col. (row = 2 \<and> col = 2) \<or> grid ! row ! col \<in> marked) [0..<5])
          [0..<5]
      else False)"

text \<open>The loop of \<open>checkForWin\<close> over the enabled patterns, in their order.\<close>

fun first_pattern :: "int list list \<Rightarrow> int set \<Rightarrow> string list \<Rightarrow> string option" where
  "first_pattern grid marked [] = None"
| "first_pattern grid marked (pattern # rest) =
     (if checkPattern grid marked pattern then Some pattern
      else first_pattern grid marked rest)"

definition checkForWin :: "int list \<Rightarrow> int set \<Rightarrow> string list \<Rightarrow> string option" where
  "checkForWin brd marked patterns = first_pattern (boardToGrid brd) marked patterns"

text \<open>\<open>Math.floor(stake * playerCount * 0.8)\<close>.\<close>

definition calculateScore :: "int \<Rightarrow> nat \<Rightarrow> int" where
  "calculateScore stk playerCount = \<lfloor>of_int (stk * int playerCount) * (0.8 :: real)\<rfloor>"

section \<open>Round engine: operations\<close>

text \<open>
  Values the environment supplies are parameters: the UUID and the seed of
  \<open>createGame\<close>, the clock reading \<open>now\<close> of \<open>markNumber\<close>, and \<open>rand\<close>, the sequence
  of values that the successive calls of \<open>Math.random()\<close> return during one call.
\<close>

definition createGame ::
  "string \<Rightarrow> int \<Rightarrow> GameManager \<Rightarrow> string \<Rightarrow> string \<Rightarrow> GameSettings \<Rightarrow> Game \<times> GameManager" where
  "createGame gameId seed gm rcode gameType stg =
     (let game = \<lparr>g_id = gameId, roomCode = rcode, gtype = gameType, players = [],
                   calledNumbers = [], currentNumber = None, gameStarted = False,
                   gameEnded = False, winner = None, winPattern = None, boardSeed = seed,
                   settings = stg\<rparr>
      in (game, gm\<lparr>games := AList.update rcode game (games gm)\<rparr>))"

datatype StartResult = Success "int list" | Failure string

text \<open>The loop of \<open>startGame\<close> that gives every player a board and an empty mark set.\<close>

fun assign_boards ::
  "string \<Rightarrow> int \<Rightarrow> (string \<times> GamePlayer) list \<Rightarrow> (string \<times> GamePlayer) list option" where
  "assign_boards gameType seed [] = Some []"
| "assign_boards gameType seed ((k, player) # rest) =
     (case generateBoard gameType seed of
        None \<Rightarrow> None
      | Some brd \<Rightarrow>
          (case assign_boards gameType seed rest of
             None \<Rightarrow> None
           | Some rest' \<Rightarrow> Some ((k, player\<lparr>board := brd, markedNumbers := {}\<rparr>) # rest')))"

definition startGame :: "GameManager \<Rightarrow> string \<Rightarrow> (StartResult \<times> GameManager) option" where
  "startGame gm rcode =
     (case map_of (games gm) rcode of
        None \<Rightarrow> Some (Failure ''Game not found'', gm)
      | Some game \<Rightarrow>
          if gameStarted game then Some (Failure ''Game already started'', gm)
          else if length (players game) < 2 then
            Some (Failure ''Need at least 2 players to start'', gm)
          else
            (case assign_boards (gtype game) (boardSeed game) (players game) of
               None \<Rightarrow> None
             | Some ps \<Rightarrow>
                 (case generateBoard (gtype game) (boardSeed game) of
                    None \<Rightarrow> None
                  | Some brd \<Rightarrow>
                      Some (Success brd,
                            gm\<lparr>games := AList.update rcode
                                  (game\<lparr>gameStarted := True, players := ps\<rparr>) (games gm)\<rparr>))))"

definition addPlayerToGame ::
  "GameManager \<Rightarrow> string \<Rightarrow> string \<Rightarrow> string \<Rightarrow> bool \<times> GameManager" where
  "addPlayerToGame gm rcode playerId playerName =
     (case map_of (games gm) rcode of
        None \<Rightarrow> (False, gm)
      | Some game \<Rightarrow>
          if gameStarted game then (False, gm)
          else
            (let player = \<lparr>gp_id = playerId, gp_name = playerName, board = [],
                            markedNumbers = {}, gp_isReady = False, hasWon = False,
                            winTime = None, gp_score = 0\<rparr>
             in (True,
                 gm\<lparr>games := AList.update rcode
                       (game\<lparr>players := AList.update playerId player (players game)\<rparr>) (games gm),
                     onlinePlayers := insert playerId (onlinePlayers gm)\<rparr>)))"


definition maxNumber :: "string \<Rightarrow> int" where
  "maxNumber gameType =
     (if gameType = ''75ball'' \<or> gameType = ''pattern'' then 75
      else if gameType = ''90ball'' then 90
      else if gameType = ''30ball'' then 30
      else 75)"

text \<open>
  The loop \<open>do { number = Math.floor(Math.random() * maxNumber) + 1 } while
  (calledNumbers.includes(number))\<close>; \<open>i\<close> counts the calls of \<open>Math.random()\<close> so far.
\<close>

partial_function (option) draw_loop ::
  "(nat \<Rightarrow> real) \<Rightarrow> int \<Rightarrow> int list \<Rightarrow> nat \<Rightarrow> int option" where
  "draw_loop rand maxN called i =
     (if \<lfloor>rand i * of_int maxN\<rfloor> + 1 \<in> set called
      then draw_loop rand maxN called (Suc i)
      else Some (\<lfloor>rand i * of_int maxN\<rfloor> + 1))"

text \<open>The result is \<open>None\<close> when the loop never exits, \<open>Some None\<close> for \<open>null\<close>.\<close>

definition generateRandomNumber ::
  "(nat \<Rightarrow> real) \<Rightarrow> string \<Rightarrow> int list \<Rightarrow> int option option" where
  "generateRandomNumber rand gameType called =
     (if maxNumber gameType \<le> int (length called) then Some None
      else map_option Some (draw_loop rand (maxNumber gameType) called 0))"

definition callNumber ::
  "(nat \<Rightarrow> real) \<Rightarrow> GameManager \<Rightarrow> string \<Rightarrow> (int option \<times> GameManager) option" where
  "callNumber rand gm rcode =
     (case map_of (games gm) rcode of
        None \<Rightarrow> Some (None, gm)
      | Some game \<Rightarrow>
          if \<not> gameStarted game \<or> gameEnded game then Some (None, gm)
          else
            (case generateRandomNumber rand (gtype game) (calledNumbers game) of
               None \<Rightarrow> None
             | Some None \<Rightarrow> Some (None, gm)
             | Some (Some number) \<Rightarrow>
                 Some (Some number,
                       gm\<lparr>games := AList.update rcode
                             (game\<lparr>currentNumber := Some number,
                                   calledNumbers := calledNumbers game @ [number]\<rparr>)
                             (games gm)\<rparr>)))"

text \<open>
  \<open>markNumber\<close>. The test \<open>if (winPattern)\<close> is a truthiness test: it fails for \<open>null\<close>
  and for the empty string.
\<close>

definition markNumber ::
  "int \<Rightarrow> GameManager \<Rightarrow> string \<Rightarrow> string \<Rightarrow> int \<Rightarrow> bool \<times> GameManager" where
  "markNumber now gm rcode playerId number =
     (case map_of (games gm) rcode of
        None \<Rightarrow> (False, gm)
      | Some game \<Rightarrow>
          if \<not> gameStarted game then (False, gm)
          else
            (case map_of (players game) playerId of
               None \<Rightarrow> (False, gm)
             | Some player \<Rightarrow>
                 (let marked = insert number (markedNumbers player);
                      player1 = player\<lparr>markedNumbers := marked\<rparr>;
                      wp = checkForWin (board player1) marked (winPatterns (settings game))
                  in if wp = None \<or> wp = Some []
                     then
                       (True,
                        gm\<lparr>games := AList.update rcode
                              (game\<lparr>players := AList.update playerId player1 (players game)\<rparr>)
                              (games gm)\<rparr>)
                     else
                       (True,
                        gm\<lparr>games := AList.update rcode
                              (game\<lparr>winner := Some playerId, winPattern := wp,
                                    gameEnded := True,
                                    players := AList.update playerId
                                      (player1\<lparr>hasWon := True, winTime := Some now,
                                         gp_score := gp_score player1 +
                                           calculateScore (stake (settings game))
                                             (length (players game))\<rparr>)
                                      (players game)\<rparr>)
                              (games gm)\<rparr>))))"


definition getOnlinePlayers :: "GameManager \<Rightarrow> (string \<times> string) list" where
  "getOnlinePlayers gm =
     concat (map (\<lambda>(k, game). map (\<lambda>(k', player). (gp_id player, gp_name player)) (players game))
                 (games gm))"

text \<open>The periodic sweep \<open>cleanupOldGames\<close>, run by the timer of the constructor.\<close>

definition cleanupOldGames :: "GameManager \<Rightarrow> GameManager" where
  "cleanupOldGames gm =
     gm\<lparr>games := filter (\<lambda>(k, game). \<not> (gameEnded game \<and> length (players game) = 0)) (games gm)\<rparr>"

section \<open>Session registry (room-manager.ts)\<close>

text \<open>A transport handle is an opaque number.\<close>

record Player =
  p_id :: string
  p_name :: string
  socket :: nat
  isHost :: bool
  p_isReady :: bool
  p_score :: int
  p_board :: "int list option"

record RoomSettings =
  autoCallNumbers :: bool
  rs_callInterval :: int
  rs_winPatterns :: "string list"

record Room =
  r_id :: string
  r_code :: string
  r_name :: string
  hostId :: string
  hostName :: string
  r_gameType :: string
  r_stake :: int
  maxPlayers :: int
  r_players :: "(string \<times> Player) list"
  r_gameStarted :: bool
  createdAt :: int
  r_settings :: RoomSettings

record RoomManager =
  rooms :: "(string \<times> Room) list"
  roomCodes :: "string set"

text \<open>The request body of \<open>createRoom\<close>.\<close>

record CreateRoomData =
  d_hostName :: string
  d_roomName :: string
  d_maxPlayers :: int
  d_gameType :: string
  d_stake :: int

record CreateRoomResult =
  cr_success :: bool
  cr_roomCode :: string
  cr_roomId :: string
  cr_playerId :: string
  cr_message :: string

text \<open>The twelve words of \<open>generateRoomCode\<close>, each as the bytes of its UTF-8 encoding.\<close>

definition words :: "string list" where
  "words =
    [[CHR 0xE1, CHR 0x88, CHR 0x88, CHR 0xE1, CHR 0x88, CHR 0x9D, CHR 0xE1, CHR 0x8A, CHR 0x95],
     [CHR 0xE1, CHR 0x89, CHR 0xA2, CHR 0xE1, CHR 0x8A, CHR 0x95, CHR 0xE1, CHR 0x8C, CHR 0x8E],
     [CHR 0xE1, CHR 0x8A, CHR 0xA0, CHR 0xE1, CHR 0x88, CHR 0xB0, CHR 0xE1, CHR 0x8D, CHR 0x8B],
     [CHR 0xE1, CHR 0x8B, CHR 0xB0, CHR 0xE1, CHR 0x88, CHR 0xB5, CHR 0xE1, CHR 0x89, CHR 0xB3],
     [CHR 0xE1, CHR 0x8A, CHR 0xA5, CHR 0xE1, CHR 0x8B, CHR 0xB5, CHR 0xE1, CHR 0x88, CHR 0x8D],
     [CHR 0xE1, CHR 0x88, CHR 0xBD, CHR 0xE1, CHR 0x88, CHR 0x8D, CHR 0xE1, CHR 0x88, CHR 0x9B,
      CHR 0xE1, CHR 0x89, CHR 0xB5],
     [CHR 0xE1, CHR 0x8B, CHR 0xB0, CHR 0xE1, CHR 0x88, CHR 0xB5, CHR 0xE1, CHR 0x89, CHR 0xB0,
      CHR 0xE1, CHR 0x8A, CHR 0x9B],
     [CHR 0xE1, CHR 0x8A, CHR 0xA0, CHR 0xE1, CHR 0x88, CHR 0xB8, CHR 0xE1, CHR 0x8A, CHR 0x93,
      CHR 0xE1, CHR 0x8D, CHR 0x8A],
     [CHR 0xE1, CHR 0x89, CHR 0xBB, CHR 0xE1, CHR 0x8A, CHR 0x95, CHR 0xE1, CHR 0x88, CHR 0xB5],
     [CHR 0xE1, CHR 0x8C, CHR 0xA8, CHR 0xE1, CHR 0x8B, CHR 0x8B, CHR 0xE1, CHR 0x89, CHR 0xB3],
     [CHR 0xE1, CHR 0x8B, CHR 0xB0, CHR 0xE1, CHR 0x88, CHR 0xB5],
     [CHR 0xE1, CHR 0x88, CHR 0x86, CHR 0xE1, CHR 0x8A, CHR 0x96]]"

text \<open>\<open>words[Math.floor(r * words.length)]\<close>, rendered into the template string: an index
  outside the array reads \<open>undefined\<close>.\<close>

definition pick_word :: "real \<Rightarrow> string" where
  "pick_word r =
     (if 0 \<le> \<lfloor>r * 12\<rfloor> \<and> \<lfloor>r * 12\<rfloor> < 12 then words ! nat \<lfloor>r * 12\<rfloor> else ''undefined'')"

text \<open>The code built in round \<open>i\<close> of the \<open>do ... while\<close> loop, which reads the values
  \<open>2 i\<close> and \<open>2 i + 1\<close> of \<open>Math.random()\<close>.\<close>

definition candidate :: "(nat \<Rightarrow> real) \<Rightarrow> nat \<Rightarrow> string" where
  "candidate rand i = pick_word (rand (2 * i)) @ ''-'' @ pick_word (rand (2 * i + 1))"

text \<open>The loop \<open>do { ... } while (this.roomCodes.has(code))\<close>.\<close>

partial_function (option) code_loop :: "(nat \<Rightarrow> real) \<Rightarrow> string set \<Rightarrow> nat \<Rightarrow> string option" where
  "code_loop rand codes i =
     (if candidate rand i \<in> codes then code_loop rand codes (Suc i)
      else Some (candidate rand i))"

definition generateRoomCode :: "(nat \<Rightarrow> real) \<Rightarrow> RoomManager \<Rightarrow> (string \<times> RoomManager) option" where
  "generateRoomCode rand rm =
     (case code_loop rand (roomCodes rm) 0 of
        None \<Rightarrow> None
      | Some c \<Rightarrow> Some (c, rm\<lparr>roomCodes := insert c (roomCodes rm)\<rparr>))"

definition getWinPatterns :: "string \<Rightarrow> string list" where
  "getWinPatterns gt =
     (if gt = ''75ball'' then [''row'', ''column'', ''diagonal'', ''four-corners'', ''full-house'']
      else if gt = ''90ball'' then [''one-line'', ''two-lines'', ''full-house'']
      else if gt = ''30ball'' then [''full-house'']
      else if gt = ''pattern'' then [''x-pattern'', ''frame'', ''postage-stamp'', ''small-diamond'']
      else [''row'', ''column'', ''diagonal'', ''four-corners'', ''full-house''])"

text \<open>\<open>createRoom\<close>; \<open>roomId\<close> and \<open>playerId\<close> are the two UUIDs it generates, \<open>now\<close> is
  the clock reading. There is no check of the request's fields.\<close>

definition createRoom ::
  "string \<Rightarrow> string \<Rightarrow> int \<Rightarrow> (nat \<Rightarrow> real) \<Rightarrow> RoomManager \<Rightarrow> CreateRoomData \<Rightarrow>
   (CreateRoomResult \<times> RoomManager) option" where
  "createRoom roomId playerId now rand rm d =
     (case generateRoomCode rand rm of
        None \<Rightarrow> None
      | Some (c, rm1) \<Rightarrow>
          (let room = \<lparr>r_id = roomId, r_code = c, r_name = d_roomName d, hostId = roomId,
                        hostName = d_hostName d, r_gameType = d_gameType d, r_stake = d_stake d,
                        maxPlayers = d_maxPlayers d, r_players = [], r_gameStarted = False,
                        createdAt = now,
                        r_settings = \<lparr>autoCallNumbers = True, rs_callInterval = 7000,
                                      rs_winPatterns = getWinPatterns (d_gameType d)\<rparr>\<rparr>
           in Some (\<lparr>cr_success = True, cr_roomCode = c, cr_roomId = roomId,
                      cr_playerId = playerId, cr_message = ''Room created successfully''\<rparr>,
                    rm1\<lparr>rooms := AList.update c room (rooms rm1)\<rparr>)))"

record JoinInfo =
  j_playerId :: string
  j_roomName :: string
  j_hostName :: string
  j_maxPlayers :: int
  j_gameType :: string
  j_stake :: int
  j_currentPlayers :: nat

datatype JoinResult = JoinFailure string | JoinSuccess JoinInfo

definition joinRoom :: "string \<Rightarrow> RoomManager \<Rightarrow> string \<Rightarrow> string \<Rightarrow> JoinResult" where
  "joinRoom playerId rm rcode playerName =
     (case map_of (rooms rm) rcode of
        None \<Rightarrow> JoinFailure ''Room not found''
      | Some room \<Rightarrow>
          if maxPlayers room \<le> int (length (r_players room)) then JoinFailure ''Room is full''
          else if r_gameStarted room then JoinFailure ''Game has already started''
          else JoinSuccess \<lparr>j_playerId = playerId, j_roomName = r_name room,
                             j_hostName = hostName room, j_maxPlayers = maxPlayers room,
                             j_gameType = r_gameType room, j_stake = r_stake room,
                             j_currentPlayers = length (r_players room) + 1\<rparr>)"

text \<open>Decimal digits of a number, for the template string \<open>Player ${n}\<close>.\<close>

fun show_nat :: "nat \<Rightarrow> string" where
  "show_nat n =
     (if n < 10 then [''0123456789'' ! n]
      else show_nat (n div 10) @ [''0123456789'' ! (n mod 10)])"

declare show_nat.simps [simp del]

text \<open>\<open>addPlayerToRoom\<close>; \<open>!room.hostId\<close> holds for the empty string only.\<close>

definition addPlayerToRoom :: "RoomManager \<Rightarrow> string \<Rightarrow> string \<Rightarrow> nat \<Rightarrow> RoomManager" where
  "addPlayerToRoom rm rcode playerId sock =
     (case map_of (rooms rm) rcode of
        None \<Rightarrow> rm
      | Some room \<Rightarrow>
          (let room1 = (if length (r_players room) = 0 \<and> hostId room = []
                        then room\<lparr>hostId := playerId\<rparr> else room);
               player = \<lparr>p_id = playerId,
                          p_name = ''Player '' @ show_nat (length (r_players room1) + 1),
                          socket = sock, isHost = (playerId = hostId room1),
                          p_isReady = False, p_score = 0, p_board = None\<rparr>
           in rm\<lparr>rooms := AList.update rcode
                    (room1\<lparr>r_players := AList.update playerId player (r_players room1)\<rparr>)
                    (rooms rm)\<rparr>))"

text \<open>\<open>removePlayerFromRoom\<close>; the new host is the first remaining player in join
  order. The notification it broadcasts is outside the model.\<close>

definition removePlayerFromRoom :: "RoomManager \<Rightarrow> string \<Rightarrow> string \<Rightarrow> RoomManager" where
  "removePlayerFromRoom rm rcode playerId =
     (case map_of (rooms rm) rcode of
        None \<Rightarrow> rm
      | Some room \<Rightarrow>
          (let room1 = room\<lparr>r_players := AList.delete playerId (r_players room)\<rparr>;
               room2 =
                 (case r_players room1 of
                    [] \<Rightarrow> room1
                  | (k, newHost) # rest \<Rightarrow>
                      if playerId = hostId room1
                      then room1\<lparr>r_players := (k, newHost\<lparr>isHost := True\<rparr>) # rest,
                                  hostId := p_id newHost, hostName := p_name newHost\<rparr>
                      else room1)
           in if length (r_players room2) = 0
              then rm\<lparr>rooms := AList.delete rcode (rooms rm),
                      roomCodes := roomCodes rm - {rcode}\<rparr>
              else rm\<lparr>rooms := AList.update rcode room2 (rooms rm)\<rparr>))"

definition getRoom :: "RoomManager \<Rightarrow> string \<Rightarrow> Room option" where
  "getRoom rm rcode = map_of (rooms rm) rcode"

text \<open>\<open>getAvailableRooms\<close>: the rooms whose summaries it lists.\<close>

definition getAvailableRooms :: "RoomManager \<Rightarrow> Room list" where
  "getAvailableRooms rm =
     filter (\<lambda>room. \<not> r_gameStarted room \<and> int (length (r_players room)) < maxPlayers room)
       (map snd (rooms rm))"

section \<open>The server's handlers (server.ts)\<close>

text \<open>
  The state the handlers share: the two managers created at start-up. A request carries
  what the handler reads from the request and from the environment (UUIDs, the clock,
  the values of \<open>Math.random()\<close>). The WebSocket commands \<open>chat\<close>, \<open>startGame\<close>,
  \<open>callNumber\<close>, \<open>markNumber\<close>, \<open>claimWin\<close> and \<open>ping\<close> only send messages; sending is
  outside the model, so they leave the state as it is. \<open>WsDisconnect\<close> is the end of a
  connection, with the player id its last \<open>join\<close> stored (if any); \<open>Tick\<close> is the timer
  of the \<open>GameManager\<close> constructor. The arguments are: \<open>ApiCreateRoom\<close> the two UUIDs,
  the clock, the random values and the body; \<open>ApiJoinRoom\<close> the UUID, the room code and
  the player name; \<open>WsJoin\<close> the room code of the path, \<open>data.playerId\<close> and the socket;
  \<open>WsLeave\<close> and \<open>WsStartGame\<close> the room code and \<open>data.playerId\<close>; the others the room
  code.
\<close>

record Server =
  roomManager :: RoomManager
  gameManager :: GameManager

definition initial :: Server where
  "initial = \<lparr>roomManager = \<lparr>rooms = [], roomCodes = {}\<rparr>,
              gameManager = \<lparr>games = [], onlinePlayers = {}\<rparr>\<rparr>"

datatype request =
    ApiPlayers
  | ApiCreateRoom string string int "nat \<Rightarrow> real" CreateRoomData
  | ApiJoinRoom string string string
  | ApiStartGame string
  | ApiRooms
  | ApiRoomInfo string
  | WsJoin string string nat
  | WsLeave string string
  | WsChat string
  | WsStartGame string string
  | WsCallNumber string
  | WsMarkNumber string
  | WsClaimWin string
  | WsPing
  | WsDisconnect string "string option"
  | Tick

datatype response =
    PlayersResponse "(string \<times> string) list"
  | CreateResponse CreateRoomResult
  | JoinResponse JoinResult
  | StartResponse StartResult
  | RoomsResponse "Room list"
  | RoomResponse "Room option"
  | NotFound
  | NoResponse

definition handle :: "request \<Rightarrow> Server \<Rightarrow> (response \<times> Server) option" where
  "handle req s =
     (case req of
        ApiPlayers \<Rightarrow> Some (PlayersResponse (getOnlinePlayers (gameManager s)), s)
      | ApiCreateRoom roomId playerId now rand d \<Rightarrow>
          (case createRoom roomId playerId now rand (roomManager s) d of
             None \<Rightarrow> None
           | Some (res, rm) \<Rightarrow> Some (CreateResponse res, s\<lparr>roomManager := rm\<rparr>))
      | ApiJoinRoom playerId rcode playerName \<Rightarrow>
          Some (JoinResponse (joinRoom playerId (roomManager s) rcode playerName), s)
      | ApiStartGame rcode \<Rightarrow>
          (case startGame (gameManager s) rcode of
             None \<Rightarrow> None
           | Some (res, gm) \<Rightarrow> Some (StartResponse res, s\<lparr>gameManager := gm\<rparr>))
      | ApiRooms \<Rightarrow> Some (RoomsResponse (getAvailableRooms (roomManager s)), s)
      | ApiRoomInfo rcode \<Rightarrow>
          if rcode = [] then Some (NotFound, s)
          else Some (RoomResponse (getRoom (roomManager s) rcode), s)
      | WsJoin rcode playerId sock \<Rightarrow>
          Some (NoResponse, s\<lparr>roomManager := addPlayerToRoom (roomManager s) rcode playerId sock\<rparr>)
      | WsLeave rcode playerId \<Rightarrow>
          Some (NoResponse, s\<lparr>roomManager := removePlayerFromRoom (roomManager s) rcode playerId\<rparr>)
      | WsChat rcode \<Rightarrow> Some (NoResponse, s)
      | WsStartGame rcode playerId \<Rightarrow> Some (NoResponse, s)
      | WsCallNumber rcode \<Rightarrow> Some (NoResponse, s)
      | WsMarkNumber rcode \<Rightarrow> Some (NoResponse, s)
      | WsClaimWin rcode \<Rightarrow> Some (NoResponse, s)
      | WsPing \<Rightarrow> Some (NoResponse, s)
      | WsDisconnect rcode None \<Rightarrow> Some (NoResponse, s)
      | WsDisconnect rcode (Some playerId) \<Rightarrow>
          if playerId = [] then Some (NoResponse, s)
          else Some (NoResponse,
                     s\<lparr>roomManager := removePlayerFromRoom (roomManager s) rcode playerId\<rparr>)
      | Tick \<Rightarrow> Some (NoResponse, s\<lparr>gameManager := cleanupOldGames (gameManager s)\<rparr>))"

text \<open>The server after a sequence of requests, each handled to its end before the next;
  \<open>None\<close> when a handler never returns.\<close>

fun run :: "request list \<Rightarrow> Server \<Rightarrow> Server option" where
  "run [] s = Some s"
| "run (req # reqs) s =
     (case handle req s of
        None \<Rightarrow> None
      | Some (res, s') \<Rightarrow> run reqs s')"

section \<open>Sequences of calls\<close>

text \<open>Successive \<open>markNumber\<close> calls on one room, each with its clock reading, player and
  number; successive \<open>callNumber\<close> calls on one room, each with its own random values.\<close>

fun mark_all :: "(int \<times> string \<times> int) list \<Rightarrow> GameManager \<Rightarrow> string \<Rightarrow> GameManager" where
  "mark_all [] gm rcode = gm"
| "mark_all ((now, playerId, number) # calls) gm rcode =
     mark_all calls (snd (markNumber now gm rcode playerId number)) rcode"

fun call_many ::
  "(nat \<Rightarrow> real) list \<Rightarrow> GameManager \<Rightarrow> string \<Rightarrow> (int option list \<times> GameManager) option" where
  "call_many [] gm rcode = Some ([], gm)"
| "call_many (rand # rands) gm rcode =
     (case callNumber rand gm rcode of
        None \<Rightarrow> None
      | Some (r, gm') \<Rightarrow>
          (case call_many rands gm' rcode of
             None \<Rightarrow> None
           | Some (rs, gm'') \<Rightarrow> Some (r # rs, gm'')))"

section \<open>Example states\<close>

definition empty_manager :: GameManager where
  "empty_manager = \<lparr>games = [], onlinePlayers = {}\<rparr>"

text \<open>A game created for the room \<open>room\<close> with the win patterns of its type, joined by
  \<open>alice\<close> and \<open>bob\<close>, not yet started.\<close>

definition lobby :: "string \<Rightarrow> int \<Rightarrow> GameManager" where
  "lobby gameType seed =
     snd (addPlayerToGame
       (snd (addPlayerToGame
         (snd (createGame ''game-1'' seed empty_manager ''room'' gameType
            \<lparr>stake = 100, autoCall = True, callInterval = 7000,
              winPatterns = getWinPatterns gameType\<rparr>))
         ''room'' ''alice'' ''Alice''))
       ''room'' ''bob'' ''Bob'')"

text \<open>The same lobby with \<open>alice\<close> alone.\<close>

definition lobby1 :: "string \<Rightarrow> int \<Rightarrow> GameManager" where
  "lobby1 gameType seed =
     snd (addPlayerToGame
       (snd (createGame ''game-1'' seed empty_manager ''room'' gameType
          \<lparr>stake = 100, autoCall = True, callInterval = 7000,
            winPatterns = getWinPatterns gameType\<rparr>))
       ''room'' ''alice'' ''Alice'')"

text \<open>The \<open>90ball\<close> lobby of seed 0 after \<open>startGame\<close>.\<close>

definition started :: GameManager where
  "started = (case startGame (lobby ''90ball'' 0) ''room'' of
                None \<Rightarrow> empty_manager | Some (res, gm) \<Rightarrow> gm)"

text \<open>Then \<open>alice\<close> marks the nine cells of her board, at times 1 to 9, and then 0, a
  number not on her board; no number has been called.\<close>

definition alice_nine :: GameManager where
  "alice_nine =
     mark_all [(1, ''alice'', 1), (2, ''alice'', 11), (3, ''alice'', 21), (4, ''alice'', 31),
               (5, ''alice'', 41), (6, ''alice'', 51), (7, ''alice'', 61), (8, ''alice'', 71),
               (9, ''alice'', 81)] started ''room''"

definition alice_won :: GameManager where
  "alice_won = snd (markNumber 10 alice_nine ''room'' ''alice'' 0)"

text \<open>Then \<open>bob\<close> marks the nine cells of his board, at times 11 to 19.\<close>

definition bob_nine :: GameManager where
  "bob_nine =
     mark_all [(11, ''bob'', 1), (12, ''bob'', 11), (13, ''bob'', 21), (14, ''bob'', 31),
               (15, ''bob'', 41), (16, ''bob'', 51), (17, ''bob'', 61), (18, ''bob'', 71),
               (19, ''bob'', 81)] alice_won ''room''"


text \<open>A started game of type \<open>pattern\<close> whose player holds a board of 25 cells, and the
  calls that mark every cell of it.\<close>

definition pattern_room :: GameManager where
  "pattern_room =
     \<lparr>games =
        [(''room'',
          \<lparr>g_id = ''game-1'', roomCode = ''room'', gtype = ''pattern'',
            players =
              [(''alice'',
                \<lparr>gp_id = ''alice'', gp_name = ''Alice'', board = [1 .. 25],
                  markedNumbers = {}, gp_isReady = False, hasWon = False, winTime = None,
                  gp_score = 0\<rparr>)],
            calledNumbers = [], currentNumber = None, gameStarted = True, gameEnded = False,
            winner = None, winPattern = None, boardSeed = 0,
            settings = \<lparr>stake = 100, autoCall = True, callInterval = 7000,
                         winPatterns = getWinPatterns ''pattern''\<rparr>\<rparr>)],
      onlinePlayers = {''alice''}\<rparr>"

definition mark_every_cell :: "(int \<times> string \<times> int) list" where
  "mark_every_cell = map (\<lambda>n. (n, ''alice'', n)) [1 .. 25]"

text \<open>The started room after one \<open>callNumber\<close> whose first random value is 0, and the
  started room with all of 1 to 90 called.\<close>

definition called_one :: GameManager where
  "called_one = (case callNumber (\<lambda>i. 0) started ''room'' of
                   None \<Rightarrow> empty_manager | Some (r, gm) \<Rightarrow> gm)"

definition all_called :: GameManager where
  "all_called =
     \<lparr>games = map (\<lambda>(k, g). (k, g\<lparr>calledNumbers := [1 .. 90], currentNumber := Some 90\<rparr>))
                  (games started),
      onlinePlayers = onlinePlayers started\<rparr>"

text \<open>The registry before any room exists, a well-formed request, and a request with
  \<open>maxPlayers\<close> below 2 and a negative stake.\<close>

definition empty_rooms :: RoomManager where
  "empty_rooms = \<lparr>rooms = [], roomCodes = {}\<rparr>"

definition request_d :: CreateRoomData where
  "request_d = \<lparr>d_hostName = ''Host'', d_roomName = ''Friday'', d_maxPlayers = 4,
                 d_gameType = ''75ball'', d_stake = 100\<rparr>"

definition bad_d :: CreateRoomData where
  "bad_d = \<lparr>d_hostName = ''Host'', d_roomName = ''Friday'', d_maxPlayers = 1,
             d_gameType = ''75ball'', d_stake = - 5\<rparr>"

section \<open>Board generation: the rejection loops\<close>

lemma set_add_stuck:
  "set numbers \<subseteq> {v} \<Longrightarrow> distinct numbers \<Longrightarrow>
   set (set_add numbers v) \<subseteq> {v} \<and> distinct (set_add numbers v)"
  by (auto simp: set_add_def)

lemma stuck_length: "set numbers \<subseteq> {v::int} \<Longrightarrow> distinct numbers \<Longrightarrow> length numbers \<le> 1"
proof -
  assume s: "set numbers \<subseteq> {v}" and d: "distinct numbers"
  have "length numbers = card (set numbers)"
    using d by (simp add: distinct_card)
  also have "\<dots> \<le> card {v}"
    using s by (intro card_mono) auto
  finally show ?thesis by simp
qed

lemma while_add_never:
  assumes ret: "while_add rnd mn mx count numbers = Some r"
  shows "\<not> (2 \<le> count \<and> set numbers \<subseteq> {rnd mn mx} \<and> distinct numbers)"
proof (rule while_add.raw_induct
    [where P = "\<lambda>rnd mn mx count numbers r.
                  \<not> (2 \<le> count \<and> set numbers \<subseteq> {rnd mn mx} \<and> distinct numbers)",
     OF _ ret], goal_cases)
  case (1 loop rnd mn mx count numbers r)
  show ?case
  proof
    assume inv: "2 \<le> count \<and> set numbers \<subseteq> {rnd mn mx} \<and> distinct numbers"
    then have "length numbers \<le> 1" using stuck_length by blast
    with inv have lt: "int (length numbers) < count" by linarith
    with 1(2) have "loop rnd mn mx count (set_add numbers (rnd mn mx)) = Some r" by simp
    from 1(1)[OF this] inv set_add_stuck[of numbers "rnd mn mx"] show False by blast
  qed
qed

lemma while_add_diverges: "2 \<le> count \<Longrightarrow> while_add rnd mn mx count [] = None"
  using while_add_never[of rnd mn mx count "[]"] by (cases "while_add rnd mn mx count []") auto

lemma while_add_one: "while_add rnd mn mx 1 [] = Some [rnd mn mx]"
  by (subst while_add.simps, simp add: set_add_def, subst while_add.simps, simp)

lemma generate75_diverges: "generate75BallBoard rnd = None"
  by (simp add: generate75BallBoard_def while_add_diverges)

lemma generate30_diverges: "generate30BallBoard rnd = None"
  by (simp add: generate30BallBoard_def while_add_diverges)

lemma generate90_one:
  "rnd 1 3 = 1 \<Longrightarrow> generate90BallBoard rnd =
     Some [rnd 1 10, rnd 11 20, rnd 21 30, rnd 31 40, rnd 41 50,
           rnd 51 60, rnd 61 70, rnd 71 80, rnd 81 90]"
  by (simp add: generate90BallBoard_def while_add_one)

lemma generate90_more: "2 \<le> rnd 1 3 \<Longrightarrow> generate90BallBoard rnd = None"
  by (simp add: generate90BallBoard_def while_add_diverges)

lemma seededRandom_range: "0 \<le> seededRandom seed \<and> seededRandom seed < 1"
  unfolding seededRandom_def Let_def by linarith

lemma random_c_count: "1 \<le> random_c seed 1 3"
proof -
  have "0 \<le> seededRandom seed * 3" using seededRandom_range[of seed] by simp
  then have "0 \<le> \<lfloor>seededRandom seed * 3\<rfloor>" by simp
  then show ?thesis by (simp add: random_c_def)
qed

lemma generateBoard_cases:
  "generateBoard gameType seed =
     (if gameType = ''90ball'' \<and> random_c seed 1 3 = 1
      then Some [random_c seed 1 10, random_c seed 11 20, random_c seed 21 30,
                 random_c seed 31 40, random_c seed 41 50, random_c seed 51 60,
                 random_c seed 61 70, random_c seed 71 80, random_c seed 81 90]
      else None)"
proof (cases "gameType = ''90ball''")
  case False
  then show ?thesis
    by (simp add: generateBoard_def generate75_diverges generate30_diverges generatePatternBoard_def)
next
  case True
  show ?thesis
  proof (cases "random_c seed 1 3 = 1")
    case True
    with \<open>gameType = ''90ball''\<close> show ?thesis
      by (simp add: generateBoard_def generate90_one)
  next
    case False
    with random_c_count[of seed] have "2 \<le> random_c seed 1 3" by linarith
    with False \<open>gameType = ''90ball''\<close> show ?thesis
      by (simp add: generateBoard_def generate90_more)
  qed
qed

lemma random_c_0: "random_c 0 mn mx = mn" by (simp add: random_c_def seededRandom_def)

lemma gb90_0: "generateBoard ''90ball'' 0 = Some [1, 11, 21, 31, 41, 51, 61, 71, 81]"
  by (simp add: generateBoard_cases random_c_0)

text \<open>
  Claim C3. The claim says that \<open>generateBoard\<close> returns a board for every game type and
  every seed. The generator \<open>random(min, max)\<close> returns the same value at every call, so
  a rejection loop that needs two or more distinct values never exits. The call returns
  exactly when the type is \<open>90ball\<close> and the count \<open>random(1, 3)\<close> is 1, with one cell
  per column; for every other type and for every seed it never returns.
\<close>

theorem generateBoard_returns_iff:
  "generateBoard gameType seed =
     (if gameType = ''90ball'' \<and> random_c seed 1 3 = 1
      then Some [random_c seed 1 10, random_c seed 11 20, random_c seed 21 30,
                 random_c seed 31 40, random_c seed 41 50, random_c seed 51 60,
                 random_c seed 61 70, random_c seed 71 80, random_c seed 81 90]
      else None)"
  by (rule generateBoard_cases)

section \<open>Starting a round\<close>

lemma assign_boards_cases:
  "assign_boards gameType seed ps =
     (case generateBoard gameType seed of
        None \<Rightarrow> (if ps = [] then Some [] else None)
      | Some brd \<Rightarrow> Some (map (\<lambda>(k, player). (k, player\<lparr>board := brd, markedNumbers := {}\<rparr>)) ps))"
  by (induction ps) (auto split: option.splits)

lemmas scenario_defs =
  lobby_def lobby1_def createGame_def addPlayerToGame_def empty_manager_def getWinPatterns_def Let_def




lemma startGame_enough:
  assumes "map_of (games gm) rc = Some g" "\<not> gameStarted g" "2 \<le> length (players g)"
  shows "startGame gm rc =
     (case generateBoard (gtype g) (boardSeed g) of
        None \<Rightarrow> None
      | Some brd \<Rightarrow>
          Some (Success brd,
                gm\<lparr>games := AList.update rc
                  (g\<lparr>gameStarted := True,
                     players := map (\<lambda>(k, player). (k, player\<lparr>board := brd, markedNumbers := {}\<rparr>))
                                  (players g)\<rparr>) (games gm)\<rparr>))"
  using assms by (auto simp: startGame_def assign_boards_cases split: option.splits)

lemma startGame_diverges:
  assumes "map_of (games gm) rc = Some g" "\<not> gameStarted g" "2 \<le> length (players g)"
    and "\<not> (gtype g = ''90ball'' \<and> random_c (boardSeed g) 1 3 = 1)"
  shows "startGame gm rc = None"
  using assms(4) by (simp add: startGame_enough[OF assms(1-3)] generateBoard_cases)


text \<open>A start that returns gives every player the board of the one value per column.\<close>

lemma startGame_boards:
  assumes "map_of (games gm) rc = Some g" "\<not> gameStarted g" "2 \<le> length (players g)"
    and "startGame gm rc = Some (res, gm')"
  shows "gtype g = ''90ball'' \<and>
         (\<exists>g'. map_of (games gm') rc = Some g' \<and>
               list_all (\<lambda>(k, player). length (board player) = 9) (players g'))"
proof -
  from assms(4) have ret: "generateBoard (gtype g) (boardSeed g) \<noteq> None"
    by (cases "generateBoard (gtype g) (boardSeed g)")
       (simp_all add: startGame_enough[OF assms(1-3)])
  then have t: "gtype g = ''90ball''" "random_c (boardSeed g) 1 3 = 1"
    by (auto simp: generateBoard_cases split: if_splits)
  from assms(4) t show ?thesis
    by (auto simp: startGame_enough[OF assms(1-3)] generateBoard_cases update_conv'
          list_all_iff)
qed



lemma lobby_game:
  "\<exists>g. map_of (games (lobby t s)) ''room'' = Some g \<and> \<not> gameStarted g \<and>
       length (players g) = 2 \<and> gtype g = t \<and> boardSeed g = s"
  by (simp add: scenario_defs)



lemma started_eq: "started =
  \<lparr>games =
        [(''room'',
          \<lparr>g_id = ''game-1'', roomCode = ''room'', gtype = ''90ball'',
             players =
               [(''alice'',
                 \<lparr>gp_id = ''alice'', gp_name = ''Alice'',
                    board = [1, 11, 21, 31, 41, 51, 61, 71, 81],
                    markedNumbers = {}, gp_isReady = False, hasWon = False,
                    winTime = None, gp_score = 0\<rparr>),
                (''bob'',
                 \<lparr>gp_id = ''bob'', gp_name = ''Bob'',
                    board = [1, 11, 21, 31, 41, 51, 61, 71, 81],
                    markedNumbers = {}, gp_isReady = False, hasWon = False,
                    winTime = None, gp_score = 0\<rparr>)],
             calledNumbers = [], currentNumber = None, gameStarted = True,
             gameEnded = False, winner = None, winPattern = None,
             boardSeed = 0,
             settings =
               \<lparr>stake = 100, autoCall = True, callInterval = 7000,
                  winPatterns =
                    [''one-line'', ''two-lines'', ''full-house'']\<rparr>\<rparr>)],
        onlinePlayers = {''bob'', ''alice''}\<rparr>"
  by (simp add: started_def startGame_def scenario_defs assign_boards_cases gb90_0)



text \<open>
  Claim C5. The claim says that after a successful \<open>startGame\<close> every player holds a
  board of 25 cells (75ball), 9 cells (30ball) or 9 to 27 cells (90ball). For a game that
  is not started and has at least 2 players, \<open>startGame\<close> never returns unless the type
  is \<open>90ball\<close> and the count \<open>random(1, 3)\<close> is 1: no 75ball or 30ball game is ever
  started, so no player ever holds a board of 25 cells or of 9 sorted cells.
\<close>

theorem startGame_never_returns:
  assumes "map_of (games gm) rc = Some g" "\<not> gameStarted g" "2 \<le> length (players g)"
    and "\<not> (gtype g = ''90ball'' \<and> random_c (boardSeed g) 1 3 = 1)"
  shows "startGame gm rc = None"
  using assms by (rule startGame_diverges)

theorem startGame_never_returns_witness:
  "startGame (lobby ''75ball'' 0) ''room'' = None \<and> startGame (lobby ''30ball'' 0) ''room'' = None"
proof -
  obtain g where g: "map_of (games (lobby ''75ball'' 0)) ''room'' = Some g"
      "\<not> gameStarted g" "2 \<le> length (players g)" "gtype g = ''75ball''"
    using lobby_game[of "''75ball''" 0] by auto
  obtain h where h: "map_of (games (lobby ''30ball'' 0)) ''room'' = Some h"
      "\<not> gameStarted h" "2 \<le> length (players h)" "gtype h = ''30ball''"
    using lobby_game[of "''30ball''" 0] by auto
  have "startGame (lobby ''75ball'' 0) ''room'' = None"
    using g by (intro startGame_never_returns[of _ _ g]) simp_all
  moreover have "startGame (lobby ''30ball'' 0) ''room'' = None"
    using h by (intro startGame_never_returns[of _ _ h]) simp_all
  ultimately show ?thesis by simp
qed

section \<open>Marking numbers\<close>

lemma markNumber_known:
  assumes "map_of (games gm) rc = Some g" "gameStarted g" "map_of (players g) pid = Some p"
  shows "markNumber now gm rc pid n =
     (True,
      gm\<lparr>games := AList.update rc
        (if checkForWin (board p) (insert n (markedNumbers p)) (winPatterns (settings g)) = None \<or>
            checkForWin (board p) (insert n (markedNumbers p)) (winPatterns (settings g)) = Some []
         then g\<lparr>players := AList.update pid (p\<lparr>markedNumbers := insert n (markedNumbers p)\<rparr>)
                              (players g)\<rparr>
         else g\<lparr>winner := Some pid,
                 winPattern := checkForWin (board p) (insert n (markedNumbers p))
                                 (winPatterns (settings g)),
                 gameEnded := True,
                 players := AList.update pid
                   (p\<lparr>markedNumbers := insert n (markedNumbers p), hasWon := True,
                      winTime := Some now,
                      gp_score := gp_score p +
                        calculateScore (stake (settings g)) (length (players g))\<rparr>)
                   (players g)\<rparr>)
        (games gm)\<rparr>)"
  using assms by (simp add: markNumber_def Let_def)

lemma markNumber_effect:
  assumes "map_of (games gm) rc = Some g" "gameStarted g" "map_of (players g) pid = Some p"
  shows "\<exists>gm' g' p'. markNumber now gm rc pid n = (True, gm') \<and>
           map_of (games gm') rc = Some g' \<and> map_of (players g') pid = Some p' \<and>
           markedNumbers p' = insert n (markedNumbers p) \<and> board p' = board p \<and>
           calledNumbers g' = calledNumbers g \<and>
           (if checkForWin (board p) (insert n (markedNumbers p)) (winPatterns (settings g)) = None \<or>
               checkForWin (board p) (insert n (markedNumbers p)) (winPatterns (settings g)) = Some []
            then gameEnded g' = gameEnded g \<and> winner g' = winner g \<and>
                 winPattern g' = winPattern g \<and> hasWon p' = hasWon p \<and>
                 gp_score p' = gp_score p
            else gameEnded g' \<and> winner g' = Some pid \<and>
                 winPattern g' = checkForWin (board p) (insert n (markedNumbers p))
                                   (winPatterns (settings g)) \<and>
                 hasWon p' \<and> winTime p' = Some now \<and>
                 gp_score p' = gp_score p +
                   calculateScore (stake (settings g)) (length (players g)))"
  by (simp add: markNumber_known[OF assms] update_conv')

lemma callNumber_ended:
  "map_of (games gm) rc = Some g \<Longrightarrow> gameEnded g \<Longrightarrow> callNumber rand gm rc = Some (None, gm)"
  by (simp add: callNumber_def)


lemma checkForWin_b9:
  "checkForWin [1, 11, 21, 31, 41, 51, 61, 71, 81] marked [''one-line'', ''two-lines'', ''full-house''] =
     (if {0, 1, 11, 21, 31, 41, 51, 61, 71, 81} \<subseteq> marked then Some ''full-house'' else None)"
  by (simp add: checkForWin_def boardToGrid_def cell_def checkPattern_def upt_rec)

lemmas mark_eval = markNumber_def Let_def checkForWin_b9 calculateScore_def


lemma alice_nine_state:
  "\<exists>g p. map_of (games alice_nine) ''room'' = Some g \<and> gameStarted g \<and> \<not> gameEnded g \<and>
     winner g = None \<and> calledNumbers g = [] \<and>
     winPatterns (settings g) = [''one-line'', ''two-lines'', ''full-house''] \<and>
     map_of (players g) ''alice'' = Some p \<and> board p = [1, 11, 21, 31, 41, 51, 61, 71, 81] \<and>
     markedNumbers p = {1, 11, 21, 31, 41, 51, 61, 71, 81}"
  by (simp add: alice_nine_def started_eq mark_eval insert_commute)

lemma bob_nine_state:
  "\<exists>g p. map_of (games bob_nine) ''room'' = Some g \<and> gameStarted g \<and> gameEnded g \<and>
     winner g = Some ''alice'' \<and> winPattern g = Some ''full-house'' \<and>
     winPatterns (settings g) = [''one-line'', ''two-lines'', ''full-house''] \<and>
     map_of (players g) ''bob'' = Some p \<and> board p = [1, 11, 21, 31, 41, 51, 61, 71, 81] \<and>
     markedNumbers p = {1, 11, 21, 31, 41, 51, 61, 71, 81} \<and> \<not> hasWon p"
  by (simp add: bob_nine_def alice_won_def alice_nine_def started_eq mark_eval insert_commute)

text \<open>
  Claim C9. For a started game, a known player and any number at all, \<open>markNumber\<close>
  returns true, adds the number to the player's marks and runs win detection on the
  enlarged set: nothing requires the number to be among \<open>calledNumbers\<close> or on the
  board, and \<open>calledNumbers\<close> is not read or changed. When the detection finds a
  pattern the win is recorded, so a win can come from marks of numbers never called.
\<close>

theorem markNumber_unchecked:
  assumes "map_of (games gm) rc = Some g" "gameStarted g" "map_of (players g) pid = Some p"
  shows "\<exists>gm' g' p'. markNumber now gm rc pid n = (True, gm') \<and>
           map_of (games gm') rc = Some g' \<and> map_of (players g') pid = Some p' \<and>
           markedNumbers p' = insert n (markedNumbers p) \<and> board p' = board p \<and>
           calledNumbers g' = calledNumbers g \<and>
           (if checkForWin (board p) (insert n (markedNumbers p)) (winPatterns (settings g)) = None \<or>
               checkForWin (board p) (insert n (markedNumbers p)) (winPatterns (settings g)) = Some []
            then gameEnded g' = gameEnded g \<and> winner g' = winner g \<and>
                 winPattern g' = winPattern g \<and> hasWon p' = hasWon p \<and>
                 gp_score p' = gp_score p
            else gameEnded g' \<and> winner g' = Some pid \<and>
                 winPattern g' = checkForWin (board p) (insert n (markedNumbers p))
                                   (winPatterns (settings g)) \<and>
                 hasWon p' \<and> winTime p' = Some now \<and>
                 gp_score p' = gp_score p +
                   calculateScore (stake (settings g)) (length (players g)))"
  using assms by (rule markNumber_effect)

theorem markNumber_unchecked_witness:
  "\<exists>g p gm' g'. map_of (games alice_nine) ''room'' = Some g \<and> calledNumbers g = [] \<and>
     map_of (players g) ''alice'' = Some p \<and> 0 \<notin> set (board p) \<and>
     markNumber 10 alice_nine ''room'' ''alice'' 0 = (True, gm') \<and>
     map_of (games gm') ''room'' = Some g' \<and> calledNumbers g' = [] \<and> gameEnded g' \<and>
     winner g' = Some ''alice'' \<and> winPattern g' = Some ''full-house''"
proof -
  obtain g p where s: "map_of (games alice_nine) ''room'' = Some g" "gameStarted g"
      "calledNumbers g = []"
      "winPatterns (settings g) = [''one-line'', ''two-lines'', ''full-house'']"
      "map_of (players g) ''alice'' = Some p" "board p = [1, 11, 21, 31, 41, 51, 61, 71, 81]"
      "markedNumbers p = {1, 11, 21, 31, 41, 51, 61, 71, 81}"
    using alice_nine_state by blast
  have win: "checkForWin (board p) (insert 0 (markedNumbers p)) (winPatterns (settings g)) =
               Some ''full-house''"
    by (simp add: s checkForWin_b9)
  from markNumber_unchecked[OF s(1) s(2) s(5), of 10 0] obtain gm' g' p'
    where "markNumber 10 alice_nine ''room'' ''alice'' 0 = (True, gm')"
      "map_of (games gm') ''room'' = Some g'" "calledNumbers g' = calledNumbers g"
      "gameEnded g'" "winner g' = Some ''alice''" "winPattern g' = Some ''full-house''"
    by (auto simp: win)
  with s show ?thesis by auto
qed

text \<open>
  Claim C1. The claim says that once \<open>gameEnded\<close> is set, \<open>winner\<close> and \<open>winPattern\<close>
  stay as they are and \<open>markNumber\<close> changes no player. \<open>callNumber\<close> does return
  \<open>null\<close> without drawing, but \<open>markNumber\<close> tests \<open>gameStarted\<close> only: on an ended game
  it still adds the mark, and when the marking player's board is then complete it
  overwrites \<open>winner\<close> and \<open>winPattern\<close> and credits a second win.
\<close>

theorem markNumber_ignores_gameEnded:
  assumes "map_of (games gm) rc = Some g" "gameStarted g" "gameEnded g"
    and "map_of (players g) pid = Some p"
  shows "callNumber rand gm rc = Some (None, gm) \<and>
         (\<exists>gm' g' p'. markNumber now gm rc pid n = (True, gm') \<and>
            map_of (games gm') rc = Some g' \<and> map_of (players g') pid = Some p' \<and>
            markedNumbers p' = insert n (markedNumbers p) \<and>
            (if checkForWin (board p) (insert n (markedNumbers p)) (winPatterns (settings g)) = None \<or>
                checkForWin (board p) (insert n (markedNumbers p)) (winPatterns (settings g)) = Some []
             then winner g' = winner g \<and> winPattern g' = winPattern g
             else winner g' = Some pid \<and>
                  winPattern g' = checkForWin (board p) (insert n (markedNumbers p))
                                    (winPatterns (settings g)) \<and>
                  hasWon p' \<and> winTime p' = Some now \<and>
                  gp_score p' = gp_score p +
                    calculateScore (stake (settings g)) (length (players g))))"
proof -
  from markNumber_effect[OF assms(1,2,4), of now n] obtain gm' g' p' where
    m: "markNumber now gm rc pid n = (True, gm')" "map_of (games gm') rc = Some g'"
       "map_of (players g') pid = Some p'" "markedNumbers p' = insert n (markedNumbers p)"
    and w: "if checkForWin (board p) (insert n (markedNumbers p)) (winPatterns (settings g)) = None \<or>
               checkForWin (board p) (insert n (markedNumbers p)) (winPatterns (settings g)) = Some []
            then gameEnded g' = gameEnded g \<and> winner g' = winner g \<and>
                 winPattern g' = winPattern g \<and> hasWon p' = hasWon p \<and>
                 gp_score p' = gp_score p
            else gameEnded g' \<and> winner g' = Some pid \<and>
                 winPattern g' = checkForWin (board p) (insert n (markedNumbers p))
                                   (winPatterns (settings g)) \<and>
                 hasWon p' \<and> winTime p' = Some now \<and>
                 gp_score p' = gp_score p +
                   calculateScore (stake (settings g)) (length (players g))"
    by blast
  have c: "callNumber rand gm rc = Some (None, gm)"
    using assms(1,3) by (rule callNumber_ended)
  from w have "if checkForWin (board p) (insert n (markedNumbers p)) (winPatterns (settings g)) = None \<or>
                checkForWin (board p) (insert n (markedNumbers p)) (winPatterns (settings g)) = Some []
             then winner g' = winner g \<and> winPattern g' = winPattern g
             else winner g' = Some pid \<and>
                  winPattern g' = checkForWin (board p) (insert n (markedNumbers p))
                                    (winPatterns (settings g)) \<and>
                  hasWon p' \<and> winTime p' = Some now \<and>
                  gp_score p' = gp_score p +
                    calculateScore (stake (settings g)) (length (players g))"
    by (simp split: if_splits)
  with m c show ?thesis by blast
qed

theorem markNumber_ignores_gameEnded_witness:
  "\<exists>g p gm' g' p'. map_of (games bob_nine) ''room'' = Some g \<and> gameEnded g \<and>
     winner g = Some ''alice'' \<and> map_of (players g) ''bob'' = Some p \<and> \<not> hasWon p \<and>
     callNumber (\<lambda>i. 0) bob_nine ''room'' = Some (None, bob_nine) \<and>
     markNumber 20 bob_nine ''room'' ''bob'' 0 = (True, gm') \<and>
     map_of (games gm') ''room'' = Some g' \<and> winner g' = Some ''bob'' \<and>
     winPattern g' = Some ''full-house'' \<and>
     map_of (players g') ''bob'' = Some p' \<and> hasWon p' \<and> winTime p' = Some 20 \<and>
     markedNumbers p' = insert 0 (markedNumbers p)"
proof -
  obtain g p where s: "map_of (games bob_nine) ''room'' = Some g" "gameStarted g" "gameEnded g"
      "winner g = Some ''alice''"
      "winPatterns (settings g) = [''one-line'', ''two-lines'', ''full-house'']"
      "map_of (players g) ''bob'' = Some p" "board p = [1, 11, 21, 31, 41, 51, 61, 71, 81]"
      "markedNumbers p = {1, 11, 21, 31, 41, 51, 61, 71, 81}" "\<not> hasWon p"
    using bob_nine_state by blast
  have win: "checkForWin (board p) (insert 0 (markedNumbers p)) (winPatterns (settings g)) =
               Some ''full-house''"
    by (simp add: s checkForWin_b9)
  from markNumber_ignores_gameEnded[OF s(1) s(2) s(3) s(6), of "\<lambda>i. 0" 20 0] obtain gm' g' p'
    where "callNumber (\<lambda>i. 0) bob_nine ''room'' = Some (None, bob_nine)"
      "markNumber 20 bob_nine ''room'' ''bob'' 0 = (True, gm')"
      "map_of (games gm') ''room'' = Some g'" "map_of (players g') ''bob'' = Some p'"
      "markedNumbers p' = insert 0 (markedNumbers p)"
      "winner g' = Some ''bob''" "winPattern g' = Some ''full-house''"
      "hasWon p'" "winTime p' = Some 20"
    by (auto simp: win)
  with s show ?thesis by blast
qed

section \<open>Win patterns that no branch recognises\<close>

lemma checkPattern_default:
  "pattern \<notin> set [''row'', ''column'', ''diagonal'', ''four-corners'', ''full-house''] \<Longrightarrow>
   \<not> checkPattern grid marked pattern"
  by (simp add: checkPattern_def)

lemma checkPattern_unknown:
  "pattern \<in> set [''one-line'', ''two-lines'', ''x-pattern'', ''frame'', ''postage-stamp'',
                    ''small-diamond''] \<Longrightarrow> \<not> checkPattern grid marked pattern"
  by (rule checkPattern_default) auto

lemma checkForWin_pattern: "checkForWin brd marked (getWinPatterns ''pattern'') = None"
  by (simp add: checkForWin_def getWinPatterns_def checkPattern_unknown)

lemma checkForWin_90ball:
  "checkForWin brd marked (getWinPatterns ''90ball'') =
     (if checkPattern (boardToGrid brd) marked ''full-house'' then Some ''full-house'' else None)"
  by (simp add: checkForWin_def getWinPatterns_def checkPattern_unknown)

text \<open>One call keeps the game of the room, its type, its settings and its outcome.\<close>

lemma markNumber_no_pattern:
  assumes "map_of (games gm) rc = Some g"
    and "\<And>brd marked. checkForWin brd marked (winPatterns (settings g)) = None"
  shows "\<exists>g'. map_of (games (snd (markNumber now gm rc pid n))) rc = Some g' \<and>
              settings g' = settings g \<and> gameEnded g' = gameEnded g \<and>
              winner g' = winner g \<and> winPattern g' = winPattern g"
  using assms by (auto simp: markNumber_def Let_def update_conv' split: option.splits)

lemma mark_all_no_pattern:
  assumes "map_of (games gm) rc = Some g"
    and "\<And>brd marked. checkForWin brd marked (winPatterns (settings g)) = None"
  shows "\<exists>g'. map_of (games (mark_all calls gm rc)) rc = Some g' \<and>
              settings g' = settings g \<and> gameEnded g' = gameEnded g \<and>
              winner g' = winner g \<and> winPattern g' = winPattern g"
  using assms
proof (induction calls arbitrary: gm g)
  case Nil
  then show ?case by simp
next
  case (Cons c calls)
  obtain now pid n where c: "c = (now, pid, n)" by (cases c) auto
  from markNumber_no_pattern[OF Cons.prems(1) Cons.prems(2), of now pid n]
  obtain g1 where g1: "map_of (games (snd (markNumber now gm rc pid n))) rc = Some g1"
    "settings g1 = settings g" "gameEnded g1 = gameEnded g" "winner g1 = winner g"
    "winPattern g1 = winPattern g" by blast
  have "\<And>brd marked. checkForWin brd marked (winPatterns (settings g1)) = None"
    using Cons.prems(2) g1(2) by simp
  from Cons.IH[OF g1(1) this] g1 show ?case by (simp add: c)
qed

text \<open>
  Claim C10. The names \<open>one-line\<close>, \<open>two-lines\<close>, \<open>x-pattern\<close>, \<open>frame\<close>,
  \<open>postage-stamp\<close> and \<open>small-diamond\<close> reach the default branch of \<open>checkPattern\<close>,
  which returns false; of the patterns configured for \<open>90ball\<close> only \<open>full-house\<close> can
  match. A game of type \<open>pattern\<close> with its configured patterns therefore keeps
  \<open>gameEnded\<close>, \<open>winner\<close> and \<open>winPattern\<close> as they are through every sequence of
  \<open>markNumber\<close> calls.
\<close>

theorem pattern_games_never_end:
  "(pattern \<in> set [''one-line'', ''two-lines'', ''x-pattern'', ''frame'', ''postage-stamp'',
                     ''small-diamond''] \<longrightarrow> \<not> checkPattern grid marked pattern) \<and>
   checkForWin brd marked (getWinPatterns ''90ball'') =
     (if checkPattern (boardToGrid brd) marked ''full-house'' then Some ''full-house'' else None) \<and>
   (map_of (games gm) rc = Some g \<and> gtype g = ''pattern'' \<and>
    winPatterns (settings g) = getWinPatterns (gtype g) \<longrightarrow>
      (\<exists>g'. map_of (games (mark_all calls gm rc)) rc = Some g' \<and>
             gameEnded g' = gameEnded g \<and> winner g' = winner g \<and> winPattern g' = winPattern g))"
proof (intro conjI impI)
  assume "pattern \<in> set [''one-line'', ''two-lines'', ''x-pattern'', ''frame'', ''postage-stamp'',
                     ''small-diamond'']"
  then show "\<not> checkPattern grid marked pattern" by (rule checkPattern_unknown)
next
  show "checkForWin brd marked (getWinPatterns ''90ball'') =
     (if checkPattern (boardToGrid brd) marked ''full-house'' then Some ''full-house'' else None)"
    by (rule checkForWin_90ball)
next
  assume a: "map_of (games gm) rc = Some g \<and> gtype g = ''pattern'' \<and>
    winPatterns (settings g) = getWinPatterns (gtype g)"
  then have "\<And>brd marked. checkForWin brd marked (winPatterns (settings g)) = None"
    by (simp add: checkForWin_pattern)
  with a mark_all_no_pattern[of gm rc g calls]
  show "\<exists>g'. map_of (games (mark_all calls gm rc)) rc = Some g' \<and>
             gameEnded g' = gameEnded g \<and> winner g' = winner g \<and> winPattern g' = winPattern g"
    by blast
qed

lemma full_house_25:
  "checkPattern (boardToGrid [1 .. 25]) (set [1 .. 25]) ''full-house''"
  by (simp add: checkPattern_def boardToGrid_def cell_def upt_rec upto.simps)

theorem pattern_games_never_end_witness:
  "\<not> checkPattern (boardToGrid [1 .. 25]) (set [1 .. 25]) ''frame'' \<and>
   checkForWin [1 .. 25] (set [1 .. 25]) (getWinPatterns ''90ball'') = Some ''full-house'' \<and>
   (\<exists>g g'. map_of (games pattern_room) ''room'' = Some g \<and> gameStarted g \<and>
      map_of (games (mark_all mark_every_cell pattern_room ''room'')) ''room'' = Some g' \<and>
      \<not> gameEnded g' \<and> winner g' = None \<and> winPattern g' = None)"
proof -
  let ?g = "the (map_of (games pattern_room) ''room'')"
  have g: "map_of (games pattern_room) ''room'' = Some ?g" "gtype ?g = ''pattern''"
    "winPatterns (settings ?g) = getWinPatterns (gtype ?g)" "gameStarted ?g"
    "\<not> gameEnded ?g" "winner ?g = None" "winPattern ?g = None"
    by (simp_all add: pattern_room_def)
  have f: "''frame'' \<in> set [''one-line'', ''two-lines'', ''x-pattern'', ''frame'', ''postage-stamp'',
                     ''small-diamond'']" by simp
  note t = pattern_games_never_end[of "''frame''" "boardToGrid [1 .. 25]" "set [1 .. 25]"
      "[1 .. 25]" pattern_room "''room''" ?g mark_every_cell]
  from t f have 1: "\<not> checkPattern (boardToGrid [1 .. 25]) (set [1 .. 25]) ''frame''" by blast
  from t full_house_25
  have 2: "checkForWin [1 .. 25] (set [1 .. 25]) (getWinPatterns ''90ball'') = Some ''full-house''"
    by simp
  from t g obtain g' where
    "map_of (games (mark_all mark_every_cell pattern_room ''room'')) ''room'' = Some g'"
    "\<not> gameEnded g'" "winner g' = None" "winPattern g' = None"
    by auto
  with 1 2 g(1,4) show ?thesis by blast
qed

section \<open>Calling numbers\<close>


lemma draw_loop_fresh:
  assumes ret: "draw_loop rand maxN called i = Some n"
  shows "n \<notin> set called"
proof (rule draw_loop.raw_induct
    [where P = "\<lambda>rand maxN called i n. n \<notin> set called", OF _ ret], goal_cases)
  case (1 loop rand maxN called i n)
  show ?case
  proof (cases "\<lfloor>rand i * of_int maxN\<rfloor> + 1 \<in> set called")
    case True
    with 1(2) have "loop rand maxN called (Suc i) = Some n" by simp
    then show ?thesis by (rule 1(1))
  next
    case False
    with 1(2) show ?thesis by auto
  qed
qed

lemma draw_loop_returns:
  assumes "\<lfloor>rand (i + k) * of_int maxN\<rfloor> + 1 \<notin> set called"
  shows "\<exists>n. draw_loop rand maxN called i = Some n"
  using assms
proof (induction k arbitrary: i)
  case 0
  then show ?case by (subst draw_loop.simps) simp
next
  case (Suc k)
  from Suc.prems have "\<lfloor>rand (Suc i + k) * of_int maxN\<rfloor> + 1 \<notin> set called" by simp
  from Suc.IH[OF this] obtain n where "draw_loop rand maxN called (Suc i) = Some n" by blast
  then show ?case by (subst draw_loop.simps) simp
qed

text \<open>The loop of \<open>generateRandomNumber\<close> returns as soon as a draw is not among the
  called numbers.\<close>

lemma callNumber_returns:
  assumes "map_of (games gm) rc = Some g" "gameStarted g" "\<not> gameEnded g"
    and "\<lfloor>rand k * of_int (maxNumber (gtype g))\<rfloor> + 1 \<notin> set (calledNumbers g)"
  shows "\<exists>r gm'. callNumber rand gm rc = Some (r, gm')"
proof -
  from draw_loop_returns[of rand 0 k "maxNumber (gtype g)" "calledNumbers g"] assms(4)
  obtain n where "draw_loop rand (maxNumber (gtype g)) (calledNumbers g) 0 = Some n" by auto
  with assms(1-3) show ?thesis
    by (simp add: callNumber_def generateRandomNumber_def)
qed

lemma covered_length:
  assumes "{1 .. m} \<subseteq> set (called :: int list)"
  shows "m \<le> int (length called)"
proof (cases "0 \<le> m")
  case True
  have "card {1 .. m} \<le> card (set called)"
    using assms by (intro card_mono) auto
  also have "\<dots> \<le> length called" by (rule card_length)
  finally show ?thesis using True by simp
next
  case False
  then show ?thesis by simp
qed

lemma callNumber_fresh:
  assumes "map_of (games gm) rc = Some g" "callNumber rand gm rc = Some (Some n, gm')"
  shows "n \<notin> set (calledNumbers g)"
  using assms
  by (auto simp: callNumber_def generateRandomNumber_def split: if_splits option.splits
           dest: draw_loop_fresh)

lemma callNumber_exhausted:
  assumes "map_of (games gm) rc = Some g" "{1 .. maxNumber (gtype g)} \<subseteq> set (calledNumbers g)"
  shows "callNumber rand gm rc = Some (None, gm)"
  using assms(1) covered_length[OF assms(2)]
  by (simp add: callNumber_def generateRandomNumber_def)

lemma call_many_exhausted:
  assumes "map_of (games gm) rc = Some g" "{1 .. maxNumber (gtype g)} \<subseteq> set (calledNumbers g)"
  shows "call_many rands gm rc = Some (replicate (length rands) None, gm)"
  by (induction rands) (simp_all add: callNumber_exhausted[OF assms])

text \<open>
  Claim C6. For a started game that has not ended, a number that \<open>callNumber\<close> returns
  is not among the numbers called before; and once the called numbers cover the range
  1 to \<open>maxNumber\<close> of the variant, every further \<open>callNumber\<close> returns \<open>null\<close> and leaves
  the game as it is.
\<close>

theorem callNumber_never_repeats:
  assumes "map_of (games gm) rc = Some g" "gameStarted g" "\<not> gameEnded g"
  shows "(\<forall>n gm'. callNumber rand gm rc = Some (Some n, gm') \<longrightarrow> n \<notin> set (calledNumbers g)) \<and>
         ({1 .. maxNumber (gtype g)} \<subseteq> set (calledNumbers g) \<longrightarrow>
            call_many rands gm rc = Some (replicate (length rands) None, gm))"
  using assms(1) callNumber_fresh call_many_exhausted by blast


lemma called_one_state:
  "\<exists>g. map_of (games called_one) ''room'' = Some g \<and> gameStarted g \<and> \<not> gameEnded g \<and>
       gtype g = ''90ball'' \<and> calledNumbers g = [1]"
proof -
  have "draw_loop (\<lambda>i. 0) 90 [] 0 = Some 1"
    by (subst draw_loop.simps) simp
  then show ?thesis
    by (simp add: called_one_def callNumber_def generateRandomNumber_def maxNumber_def started_eq)
qed

lemma all_called_state:
  "\<exists>g. map_of (games all_called) ''room'' = Some g \<and> gameStarted g \<and> \<not> gameEnded g \<and>
       gtype g = ''90ball'' \<and> calledNumbers g = [1 .. 90]"
  by (simp add: all_called_def started_eq)

lemma second_draw:
  "draw_loop (\<lambda>i. if i = 0 then 0 else 1 / 2) 90 [1] 0 = Some 46"
  by (subst draw_loop.simps, simp, subst draw_loop.simps, simp)

theorem callNumber_never_repeats_witness:
  "(\<exists>g gm'. map_of (games called_one) ''room'' = Some g \<and> calledNumbers g = [1] \<and>
      46 \<notin> set (calledNumbers g) \<and>
      callNumber (\<lambda>i. if i = 0 then 0 else 1 / 2) called_one ''room'' = Some (Some 46, gm')) \<and>
   call_many [\<lambda>i. 0, \<lambda>i. 1 / 2] all_called ''room'' = Some ([None, None], all_called)"
proof -
  obtain g where g: "map_of (games called_one) ''room'' = Some g" "gameStarted g"
      "\<not> gameEnded g" "gtype g = ''90ball''" "calledNumbers g = [1]"
    using called_one_state by blast
  obtain h where h: "map_of (games all_called) ''room'' = Some h" "gameStarted h"
      "\<not> gameEnded h" "gtype h = ''90ball''" "calledNumbers h = [1 .. 90]"
    using all_called_state by blast
  have "\<exists>gm'. callNumber (\<lambda>i. if i = 0 then 0 else 1 / 2) called_one ''room'' = Some (Some 46, gm')"
    using g by (simp add: callNumber_def generateRandomNumber_def maxNumber_def second_draw)
  then obtain gm' where
    c: "callNumber (\<lambda>i. if i = 0 then 0 else 1 / 2) called_one ''room'' = Some (Some 46, gm')"
    by blast
  from callNumber_never_repeats[OF g(1) g(2) g(3), of "\<lambda>i. if i = 0 then 0 else 1 / 2" "[]"] c
  have fresh: "46 \<notin> set (calledNumbers g)" by blast
  have cover: "{1 .. maxNumber (gtype h)} \<subseteq> set (calledNumbers h)"
    by (simp add: h maxNumber_def)
  from callNumber_never_repeats[OF h(1) h(2) h(3), of "\<lambda>i. 0" "[\<lambda>i. 0, \<lambda>i. 1 / 2]"] cover
  have "call_many [\<lambda>i. 0, \<lambda>i. 1 / 2] all_called ''room'' = Some ([None, None], all_called)"
    by simp
  with g c fresh show ?thesis by blast
qed

section \<open>Creating rooms\<close>

lemma code_loop_returns:
  assumes "candidate rand (i + k) \<notin> codes"
  shows "\<exists>c. code_loop rand codes i = Some c \<and> c \<notin> codes"
  using assms
proof (induction k arbitrary: i)
  case 0
  then show ?case by (subst code_loop.simps) simp
next
  case (Suc k)
  from Suc.prems have "candidate rand (Suc i + k) \<notin> codes" by simp
  from Suc.IH[OF this] obtain c where "code_loop rand codes (Suc i) = Some c" "c \<notin> codes"
    by blast
  then show ?case by (subst code_loop.simps) simp
qed

lemma createRoom_registers:
  assumes "code_loop rand (roomCodes rm) 0 = Some c"
  shows "createRoom roomId playerId now rand rm d =
     Some (\<lparr>cr_success = True, cr_roomCode = c, cr_roomId = roomId, cr_playerId = playerId,
             cr_message = ''Room created successfully''\<rparr>,
           rm\<lparr>roomCodes := insert c (roomCodes rm),
              rooms := AList.update c
                \<lparr>r_id = roomId, r_code = c, r_name = d_roomName d, hostId = roomId,
                  hostName = d_hostName d, r_gameType = d_gameType d, r_stake = d_stake d,
                  maxPlayers = d_maxPlayers d, r_players = [], r_gameStarted = False,
                  createdAt = now,
                  r_settings = \<lparr>autoCallNumbers = True, rs_callInterval = 7000,
                                rs_winPatterns = getWinPatterns (d_gameType d)\<rparr>\<rparr>
                (rooms rm)\<rparr>)"
  using assms by (simp add: createRoom_def generateRoomCode_def Let_def)

lemma createRoom_returns:
  assumes "createRoom roomId playerId now rand rm d = Some (res, rm1)"
  shows "\<exists>c. code_loop rand (roomCodes rm) 0 = Some c"
  using assms by (cases "code_loop rand (roomCodes rm) 0")
    (simp_all add: createRoom_def generateRoomCode_def)

text \<open>
  Claim C8, as amended. \<open>createRoom\<close> checks neither \<open>maxPlayers\<close> nor the stake: for
  every request, also one with \<open>maxPlayers\<close> below 2 or a negative stake, as soon as one
  of the drawn codes is free it returns success and registers a room that carries the
  requested \<open>maxPlayers\<close> and stake.
\<close>

theorem createRoom_no_validation:
  assumes "candidate rand k \<notin> roomCodes rm"
  shows "\<exists>res rm' room. createRoom roomId playerId now rand rm d = Some (res, rm') \<and>
           cr_success res \<and> cr_roomCode res \<in> roomCodes rm' \<and>
           map_of (rooms rm') (cr_roomCode res) = Some room \<and>
           maxPlayers room = d_maxPlayers d \<and> r_stake room = d_stake d"
proof -
  from code_loop_returns[of rand 0 k "roomCodes rm"] assms
  obtain c where "code_loop rand (roomCodes rm) 0 = Some c" by auto
  from createRoom_registers[OF this] show ?thesis
    by (simp add: update_conv')
qed

lemma first_code: "code_loop (\<lambda>i. 0) {} 0 = Some (candidate (\<lambda>i. 0) 0)"
  by (subst code_loop.simps) simp

text \<open>
  Claim C8 as stated fails: a request with \<open>maxPlayers = 1\<close> and a stake of -5 is
  answered with success, and the room is registered.
\<close>

theorem createRoom_invalid_counterexample:
  "createRoom ''room-uuid'' ''host-uuid'' 0 (\<lambda>i. 0) empty_rooms bad_d =
     Some (\<lparr>cr_success = True, cr_roomCode = candidate (\<lambda>i. 0) 0, cr_roomId = ''room-uuid'',
             cr_playerId = ''host-uuid'', cr_message = ''Room created successfully''\<rparr>,
           \<lparr>rooms =
              [(candidate (\<lambda>i. 0) 0,
                \<lparr>r_id = ''room-uuid'', r_code = candidate (\<lambda>i. 0) 0, r_name = ''Friday'',
                  hostId = ''room-uuid'', hostName = ''Host'', r_gameType = ''75ball'',
                  r_stake = - 5, maxPlayers = 1, r_players = [], r_gameStarted = False,
                  createdAt = 0,
                  r_settings = \<lparr>autoCallNumbers = True, rs_callInterval = 7000,
                                rs_winPatterns = [''row'', ''column'', ''diagonal'',
                                                  ''four-corners'', ''full-house'']\<rparr>\<rparr>)],
             roomCodes = {candidate (\<lambda>i. 0) 0}\<rparr>) \<and>
   d_maxPlayers bad_d < 2 \<and> d_stake bad_d < 0"
proof -
  have "code_loop (\<lambda>i. 0) (roomCodes empty_rooms) 0 = Some (candidate (\<lambda>i. 0) 0)"
    by (simp add: empty_rooms_def first_code)
  from createRoom_registers[OF this, of "''room-uuid''" "''host-uuid''" 0 bad_d]
  show ?thesis
    by (simp add: empty_rooms_def bad_d_def getWinPatterns_def)
qed

theorem createRoom_no_validation_witness:
  "candidate (\<lambda>i. 0) 0 \<notin> roomCodes empty_rooms \<and>
   (\<exists>res rm' room. createRoom ''room-uuid'' ''host-uuid'' 0 (\<lambda>i. 0) empty_rooms bad_d = Some (res, rm') \<and>
      cr_success res \<and> map_of (rooms rm') (cr_roomCode res) = Some room \<and>
      maxPlayers room = 1 \<and> r_stake room = - 5)"
proof -
  have free: "candidate (\<lambda>i. 0) 0 \<notin> roomCodes empty_rooms"
    by (simp add: empty_rooms_def)
  from createRoom_no_validation[OF free, of "''room-uuid''" "''host-uuid''" 0 bad_d]
  obtain res rm' room where
    "createRoom ''room-uuid'' ''host-uuid'' 0 (\<lambda>i. 0) empty_rooms bad_d = Some (res, rm')"
    "cr_success res" "map_of (rooms rm') (cr_roomCode res) = Some room"
    "maxPlayers room = d_maxPlayers bad_d" "r_stake room = d_stake bad_d"
    by blast
  then have "createRoom ''room-uuid'' ''host-uuid'' 0 (\<lambda>i. 0) empty_rooms bad_d = Some (res, rm') \<and>
      cr_success res \<and> map_of (rooms rm') (cr_roomCode res) = Some room \<and>
      maxPlayers room = 1 \<and> r_stake room = - 5"
    by (simp add: bad_d_def)
  with free show ?thesis by blast
qed


section \<open>Host flag\<close>

text \<open>
  Claim C7. The claim says that a non-empty room has exactly one host and that the first
  player to attach to a fresh room becomes its host. \<open>createRoom\<close> stores the room's own
  UUID as \<open>hostId\<close>, so the test \<open>!room.hostId\<close> of \<open>addPlayerToRoom\<close> fails and
  \<open>hostId\<close> stays: the first player is flagged host only when its id is that UUID, and
  otherwise the room has one player and no host.
\<close>

theorem first_player_not_host:
  assumes "createRoom roomId playerId now rand rm d = Some (res, rm1)"
    and "roomId \<noteq> []"
  shows "\<exists>room p. map_of (rooms (addPlayerToRoom rm1 (cr_roomCode res) pid sock)) (cr_roomCode res) =
                   Some room \<and>
           r_players room = [(pid, p)] \<and> hostId room = roomId \<and> isHost p = (pid = roomId) \<and>
           length (filter (\<lambda>(k, q). isHost q) (r_players room)) = (if pid = roomId then 1 else 0)"
proof -
  from createRoom_returns[OF assms(1)] obtain c
    where c: "code_loop rand (roomCodes rm) 0 = Some c" by blast
  from assms(1) createRoom_registers[OF c, of roomId playerId now d]
  have res: "cr_roomCode res = c"
    and rm1: "map_of (rooms rm1) c =
      Some \<lparr>r_id = roomId, r_code = c, r_name = d_roomName d, hostId = roomId,
                  hostName = d_hostName d, r_gameType = d_gameType d, r_stake = d_stake d,
                  maxPlayers = d_maxPlayers d, r_players = [], r_gameStarted = False,
                  createdAt = now,
                  r_settings = \<lparr>autoCallNumbers = True, rs_callInterval = 7000,
                                rs_winPatterns = getWinPatterns (d_gameType d)\<rparr>\<rparr>"
    by (auto simp: update_conv')
  show ?thesis
    using assms(2) by (simp add: res addPlayerToRoom_def rm1 Let_def update_conv')
qed

theorem first_player_not_host_witness:
  "\<exists>res rm1 room p.
     createRoom ''room-uuid'' ''host-uuid'' 0 (\<lambda>i. 0) empty_rooms request_d = Some (res, rm1) \<and>
     cr_playerId res = ''host-uuid'' \<and>
     map_of (rooms (addPlayerToRoom rm1 (cr_roomCode res) ''host-uuid'' 1)) (cr_roomCode res) =
       Some room \<and>
     r_players room = [(''host-uuid'', p)] \<and> \<not> isHost p \<and> hostId room = ''room-uuid'' \<and>
     length (filter (\<lambda>(k, q). isHost q) (r_players room)) = 0"
proof -
  have "code_loop (\<lambda>i. 0) (roomCodes empty_rooms) 0 = Some (candidate (\<lambda>i. 0) 0)"
    by (simp add: empty_rooms_def first_code)
  from createRoom_registers[OF this, of "''room-uuid''" "''host-uuid''" 0 request_d]
  obtain res rm1 where
    c: "createRoom ''room-uuid'' ''host-uuid'' 0 (\<lambda>i. 0) empty_rooms request_d = Some (res, rm1)"
    and p: "cr_playerId res = ''host-uuid''"
    by simp
  have ne: "''room-uuid'' \<noteq> []" by simp
  from first_player_not_host[OF c ne, of "''host-uuid''" 1] obtain room p where
    "map_of (rooms (addPlayerToRoom rm1 (cr_roomCode res) ''host-uuid'' 1)) (cr_roomCode res) =
       Some room"
    "r_players room = [(''host-uuid'', p)]" "\<not> isHost p" "hostId room = ''room-uuid''"
    "length (filter (\<lambda>(k, q). isHost q) (r_players room)) = 0"
    by auto
  with c p show ?thesis by blast
qed


section \<open>The server never creates a game\<close>

lemma handle_keeps_games_empty:
  assumes "handle req s = Some (res, s')" "games (gameManager s) = []"
  shows "games (gameManager s') = []"
proof (cases req)
  case (ApiStartGame rc)
  with assms show ?thesis
    by (auto simp: handle_def startGame_def)
next
  case Tick
  with assms show ?thesis
    by (auto simp: handle_def cleanupOldGames_def)
next
  case (WsDisconnect rc who)
  with assms show ?thesis
    by (cases who) (auto simp: handle_def split: if_splits)
qed (use assms in \<open>auto simp: handle_def split: option.splits if_splits\<close>)

lemma run_keeps_games_empty:
  assumes "run reqs s = Some s'" "games (gameManager s) = []"
  shows "games (gameManager s') = []"
  using assms
proof (induction reqs arbitrary: s)
  case Nil
  then show ?case by simp
next
  case (Cons req reqs)
  from Cons.prems(1) obtain res s1 where h: "handle req s = Some (res, s1)"
    and r: "run reqs s1 = Some s'"
    by (auto split: option.splits)
  from handle_keeps_games_empty[OF h Cons.prems(2)] have "games (gameManager s1) = []" .
  from Cons.IH[OF r this] show ?case .
qed

lemma startGame_no_games:
  "games gm = [] \<Longrightarrow> startGame gm rc = Some (Failure ''Game not found'', gm)"
  by (simp add: startGame_def)

text \<open>
  Claim C2. No handler calls \<open>createGame\<close>: after every sequence of API requests,
  WebSocket commands and timer ticks that the server handles from its initial state, the
  \<open>games\<close> map is empty, so \<open>startGame\<close> answers "Game not found" for every room code,
  and so does the handler of \<open>/api/game/start\<close>.
\<close>

theorem games_map_stays_empty:
  assumes "run reqs initial = Some s"
  shows "games (gameManager s) = [] \<and>
         startGame (gameManager s) rc = Some (Failure ''Game not found'', gameManager s) \<and>
         handle (ApiStartGame rc) s = Some (StartResponse (Failure ''Game not found''), s)"
proof -
  have "games (gameManager initial) = []" by (simp add: initial_def)
  from run_keeps_games_empty[OF assms this] have e: "games (gameManager s) = []" .
  then show ?thesis by (simp add: handle_def startGame_no_games)
qed

theorem games_map_stays_empty_witness:
  "\<exists>s room. run [ApiCreateRoom ''room-uuid'' ''host-uuid'' 0 (\<lambda>i. 0) request_d,
                  WsJoin (candidate (\<lambda>i. 0) 0) ''host-uuid'' 1,
                  WsJoin (candidate (\<lambda>i. 0) 0) ''guest-uuid'' 2,
                  ApiStartGame (candidate (\<lambda>i. 0) 0)] initial = Some s \<and>
     getRoom (roomManager s) (candidate (\<lambda>i. 0) 0) = Some room \<and> length (r_players room) = 2 \<and>
     games (gameManager s) = [] \<and>
     handle (ApiStartGame (candidate (\<lambda>i. 0) 0)) s =
       Some (StartResponse (Failure ''Game not found''), s)"
proof -
  have "\<exists>s room. run [ApiCreateRoom ''room-uuid'' ''host-uuid'' 0 (\<lambda>i. 0) request_d,
                  WsJoin (candidate (\<lambda>i. 0) 0) ''host-uuid'' 1,
                  WsJoin (candidate (\<lambda>i. 0) 0) ''guest-uuid'' 2,
                  ApiStartGame (candidate (\<lambda>i. 0) 0)] initial = Some s \<and>
     getRoom (roomManager s) (candidate (\<lambda>i. 0) 0) = Some room \<and> length (r_players room) = 2"
    by (simp add: initial_def handle_def createRoom_def generateRoomCode_def first_code
        addPlayerToRoom_def startGame_def getRoom_def Let_def)
  then obtain s room where
    r: "run [ApiCreateRoom ''room-uuid'' ''host-uuid'' 0 (\<lambda>i. 0) request_d,
                  WsJoin (candidate (\<lambda>i. 0) 0) ''host-uuid'' 1,
                  WsJoin (candidate (\<lambda>i. 0) 0) ''guest-uuid'' 2,
                  ApiStartGame (candidate (\<lambda>i. 0) 0)] initial = Some s"
    and g: "getRoom (roomManager s) (candidate (\<lambda>i. 0) 0) = Some room" "length (r_players room) = 2"
    by blast
  from games_map_stays_empty[OF r, of "candidate (\<lambda>i. 0) 0"] r g show ?thesis by blast
qed

end
